theory Spec2Isabelle
  imports Complex_Main
begin

section \<open>The financial metrics engine of app.py\<close>

text \<open>
  The development embeds the class \<^verbatim>\<open>FinancialAnalyzer\<close> of \<^verbatim>\<open>app.py\<close>: its
  constructor, three of its chart builders and its summary builder. Monetary amounts
  are float64 in the program; they are idealised here as real numbers, so rounding and
  overflow of floating-point arithmetic are outside the model. A Python exception is a
  value of type \<open>error\<close>, and a function that can raise returns \<open>error + 'a\<close>.
\<close>

subsection \<open>Exceptions\<close>

text \<open>
  \<open>KeyError\<close> carries the column labels that were requested and are absent,
  \<open>ValueError\<close> is raised by date parsing and by \<^verbatim>\<open>idxmax\<close> on an empty series,
  \<open>AttributeError\<close> by the \<^verbatim>\<open>.dt\<close> accessor on a column that holds no datetimes,
  \<open>ZeroDivisionError\<close> by \<^verbatim>\<open>/\<close> on Python floats.
\<close>

datatype error = KeyError "string list" | ValueError | AttributeError | ZeroDivisionError

definition and_then :: "error + 'a \<Rightarrow> ('a \<Rightarrow> error + 'b) \<Rightarrow> error + 'b" where
  "and_then m k = (case m of Inl e \<Rightarrow> Inl e | Inr v \<Rightarrow> k v)"

definition truediv :: "real \<Rightarrow> real \<Rightarrow> error + real" where
  "truediv a b = (if b = 0 then Inl ZeroDivisionError else Inr (a / b))"

subsection \<open>The table\<close>

text \<open>
  A timestamp is a calendar date. The column \<^verbatim>\<open>Month\<close> holds the strings read from
  the CSV file until the constructor replaces them by timestamps. Every other column is
  numeric and is found by its label; \<open>Month_col = None\<close> is a table without a
  \<^verbatim>\<open>Month\<close> column.
\<close>

record timestamp =
  year :: nat
  month :: nat
  day :: nat

datatype month_column = Strings "string list" | Datetimes "timestamp list"

record dataframe =
  Month_col :: "month_column option"
  amounts :: "(string \<times> real list) list"

text \<open>\<^verbatim>\<open>df[label]\<close> for a numeric column.\<close>

definition getitem :: "dataframe \<Rightarrow> string \<Rightarrow> error + real list" where
  "getitem f label =
     (case map_of (amounts f) label of
        None \<Rightarrow> Inl (KeyError [label])
      | Some c \<Rightarrow> Inr c)"

text \<open>\<^verbatim>\<open>df[[l1, ..., ln]]\<close>: the selected columns in the requested order.\<close>

definition getitems :: "dataframe \<Rightarrow> string list \<Rightarrow> error + (string \<times> real list) list" where
  "getitems f labels =
     (if filter (\<lambda>l. map_of (amounts f) l = None) labels = []
      then Inr (map (\<lambda>l. (l, case map_of (amounts f) l of None \<Rightarrow> [] | Some c \<Rightarrow> c)) labels)
      else Inl (KeyError (filter (\<lambda>l. map_of (amounts f) l = None) labels)))"

text \<open>\<^verbatim>\<open>DataFrame.sum()\<close>: one total per selected column, indexed by the labels.\<close>

definition frame_sum :: "(string \<times> real list) list \<Rightarrow> (string \<times> real) list" where
  "frame_sum cols = map (\<lambda>(l, c). (l, sum_list c)) cols"

text \<open>\<^verbatim>\<open>Series.mean()\<close>; \<open>None\<close> is the NaN returned for a column without rows.\<close>

definition mean :: "real list \<Rightarrow> real option" where
  "mean c = (if c = [] then None else Some (sum_list c / real (length c)))"

text \<open>
  \<^verbatim>\<open>Series.idxmax()\<close>: the label of the first occurrence of the maximum. The scan
  replaces the best entry only by a strictly larger one.
\<close>

definition better :: "string \<times> real \<Rightarrow> string \<times> real \<Rightarrow> string \<times> real" where
  "better best cand = (if snd best < snd cand then cand else best)"

fun idxmax :: "(string \<times> real) list \<Rightarrow> error + string" where
  "idxmax [] = Inl ValueError"
| "idxmax (p # ps) = Inr (fst (foldl better p ps))"

subsection \<open>The summary\<close>

definition expense_columns :: "string list" where
  "expense_columns =
     [''Rent'', ''Utilities'', ''Insurance'', ''Loan_Payments'',
      ''Groceries'', ''Transportation'', ''Entertainment'',
      ''Healthcare'', ''Shopping'', ''Dining_Out'', ''Subscriptions'']"

record summary =
  total_income :: real
  total_expenses :: real
  total_savings :: real
  total_investments :: real
  net_income :: real
  average_monthly_income :: "real option"
  average_monthly_expenses :: "real option"
  average_monthly_savings :: "real option"
  savings_rate :: real
  traditional_savings_rate :: real
  months_in_deficit :: int
  largest_expense_category :: string

text \<open>
  The rate of lines 200 to 206: the outer test, and the conditional expression of line
  203 that repeats it.
\<close>

definition actual_savings_rate :: "real \<Rightarrow> real \<Rightarrow> error + real" where
  "actual_savings_rate savings net =
     (if net > 0
      then (if net > 0
            then and_then (truediv savings net) (\<lambda>q. Inr (q * 100))
            else Inr 0)
      else Inr 0)"

text \<open>Line 209.\<close>

definition traditional_rate :: "real \<Rightarrow> real \<Rightarrow> error + real" where
  "traditional_rate savings income =
     (if income > 0
      then and_then (truediv savings income) (\<lambda>q. Inr (q * 100))
      else Inr 0)"

text \<open>
  \<^verbatim>\<open>get_financial_summary\<close>, in the order in which the program reads the columns:
  the four totals, the two rates, then the entries of the dictionary.
\<close>

definition get_financial_summary :: "dataframe \<Rightarrow> error + summary" where
  "get_financial_summary f =
     and_then (getitem f ''Income'') (\<lambda>income.
     and_then (getitem f ''Total_Expenses'') (\<lambda>expenses.
     and_then (getitem f ''Savings'') (\<lambda>savings.
     and_then (getitem f ''Investments'') (\<lambda>investments.
     and_then (actual_savings_rate (sum_list savings) (sum_list income - sum_list expenses)) (\<lambda>rate.
     and_then (traditional_rate (sum_list savings) (sum_list income)) (\<lambda>trate.
     and_then (getitem f ''Net_Income'') (\<lambda>net.
     and_then (getitems f expense_columns) (\<lambda>cols.
     and_then (idxmax (frame_sum cols)) (\<lambda>largest.
       Inr \<lparr> total_income = sum_list income,
             total_expenses = sum_list expenses,
             total_savings = sum_list savings,
             total_investments = sum_list investments,
             net_income = sum_list income - sum_list expenses,
             average_monthly_income = mean income,
             average_monthly_expenses = mean expenses,
             average_monthly_savings = mean savings,
             savings_rate = rate,
             traditional_savings_rate = trate,
             months_in_deficit = int (length (filter (\<lambda>v. v < 0) net)),
             largest_expense_category = largest \<rparr>)))))))))"

subsection \<open>Figures\<close>

text \<open>
  A figure is what the builders hand to \<^verbatim>\<open>json.dumps\<close>: its data traces, the
  horizontal lines added by \<^verbatim>\<open>add_hline\<close> (shapes of the layout, not traces) and
  the layout texts. Strings are byte lists, so the rupee sign of the axis title is its
  three UTF-8 bytes.
\<close>

record scatter =
  trace_x :: "string list"
  trace_y :: "real list"
  trace_mode :: string
  trace_name :: string
  line_color :: string
  line_width :: nat
  trace_fill :: "string option"

record pie =
  pie_labels :: "string list"
  pie_values :: "real list"
  pie_hole :: real

datatype trace = Scatter scatter | Pie pie

record hline =
  hline_y :: real
  hline_dash :: string
  hline_color :: string
  annotation_text :: string

record layout =
  title :: string
  xaxis_title :: "string option"
  yaxis_title :: "string option"
  template :: string

record figure =
  fig_data :: "trace list"
  fig_hlines :: "hline list"
  fig_layout :: layout

definition amount_axis :: string where
  "amount_axis = ''Amount ('' @ [CHR 0xE2, CHR 0x82, CHR 0xB9] @ '')''"

subsection \<open>Period labels\<close>

text \<open>\<^verbatim>\<open>strftime('%Y-%m')\<close>: the year on four digits, a dash, the month on two.\<close>

definition digit :: "nat \<Rightarrow> char" where
  "digit n = ''0123456789'' ! (n mod 10)"

text \<open>A pandas timestamp lies between the years 1677 and 2262, so four digits hold its year.\<close>

definition strftime_Y_m :: "timestamp \<Rightarrow> string" where
  "strftime_Y_m t =
     [digit (year t div 1000), digit (year t div 100), digit (year t div 10), digit (year t),
      CHR ''-'', digit (month t div 10), digit (month t)]"

text \<open>
  \<^verbatim>\<open>self.df['Month'].dt.strftime('%Y-%m')\<close>, one label per row in the order of the
  rows.
\<close>

definition month_labels :: "dataframe \<Rightarrow> error + string list" where
  "month_labels f =
     (case Month_col f of
        None \<Rightarrow> Inl (KeyError [''Month''])
      | Some (Strings ss) \<Rightarrow> Inl AttributeError
      | Some (Datetimes ts) \<Rightarrow> Inr (map strftime_Y_m ts))"

subsection \<open>Chart builders\<close>



definition get_net_income_trend :: "dataframe \<Rightarrow> error + figure" where
  "get_net_income_trend f =
     and_then (month_labels f) (\<lambda>x_values.
     and_then (getitem f ''Net_Income'') (\<lambda>y_values.
       Inr \<lparr> fig_data = [Scatter \<lparr> trace_x = x_values, trace_y = y_values,
                                   trace_mode = ''lines+markers'', trace_name = ''Net Income'',
                                   line_color = ''#32CD32'', line_width = 3,
                                   trace_fill = Some ''tonexty'' \<rparr>],
             fig_hlines = [\<lparr> hline_y = 0, hline_dash = ''dash'', hline_color = ''red'',
                             annotation_text = ''Break-even Line'' \<rparr>],
             fig_layout = \<lparr> title = ''Monthly Net Income Trend'',
                            xaxis_title = Some ''Month'',
                            yaxis_title = Some amount_axis,
                            template = ''plotly_white'' \<rparr> \<rparr>))"

text \<open>The y-values of the scatter traces of a figure, and the labels of its first trace.\<close>

fun scatter_ys :: "trace list \<Rightarrow> real list list" where
  "scatter_ys [] = []"
| "scatter_ys (Scatter s # ts) = trace_y s # scatter_ys ts"
| "scatter_ys (Pie p # ts) = scatter_ys ts"

fun scatter_xs :: "trace list \<Rightarrow> string list list" where
  "scatter_xs [] = []"
| "scatter_xs (Scatter s # ts) = trace_x s # scatter_xs ts"
| "scatter_xs (Pie p # ts) = scatter_xs ts"

subsection \<open>The constructor\<close>

text \<open>
  \<^verbatim>\<open>pd.to_datetime\<close> with its default \<^verbatim>\<open>errors='raise'\<close>: every string of the
  column is parsed, and one string that does not parse makes the whole call raise. The
  parser of a single value belongs to pandas and is a parameter. A column that already
  holds timestamps is returned as it is.
\<close>

fun parse_all :: "(string \<Rightarrow> timestamp option) \<Rightarrow> string list \<Rightarrow> timestamp list option" where
  "parse_all parse [] = Some []"
| "parse_all parse (s # ss) =
     (case parse s of
        None \<Rightarrow> None
      | Some t \<Rightarrow> (case parse_all parse ss of None \<Rightarrow> None | Some ts \<Rightarrow> Some (t # ts)))"

definition to_datetime :: "(string \<Rightarrow> timestamp option) \<Rightarrow> month_column \<Rightarrow> error + month_column" where
  "to_datetime parse c =
     (case c of
        Datetimes ts \<Rightarrow> Inr (Datetimes ts)
      | Strings ss \<Rightarrow> (case parse_all parse ss of
                        None \<Rightarrow> Inl ValueError
                      | Some ts \<Rightarrow> Inr (Datetimes ts)))"

text \<open>
  The constructor keeps a reference to the table it is given and assigns the parsed
  column into that table. Tables live in a store, an analyzer holds the address of its
  table, and the constructor returns the store it leaves behind together with the new
  analyzer or the exception.
\<close>

type_synonym addr = nat

type_synonym store = "addr \<Rightarrow> dataframe"

record analyzer =
  df :: addr

definition FinancialAnalyzer_init ::
  "(string \<Rightarrow> timestamp option) \<Rightarrow> store \<Rightarrow> addr \<Rightarrow> (error + analyzer) \<times> store" where
  "FinancialAnalyzer_init parse h a =
     (case Month_col (h a) of
        None \<Rightarrow> (Inl (KeyError [''Month'']), h)
      | Some c \<Rightarrow>
          (case to_datetime parse c of
             Inl e \<Rightarrow> (Inl e, h)
           | Inr c' \<Rightarrow> (Inr \<lparr> df = a \<rparr>, h(a := (h a)\<lparr> Month_col := Some c' \<rparr>))))"

subsection \<open>Chronological order\<close>



subsection \<open>Totals per category\<close>

text \<open>The sum of one column over all rows; 0 for a label the table does not have.\<close>

definition column_total :: "dataframe \<Rightarrow> string \<Rightarrow> real" where
  "column_total f label = (case map_of (amounts f) label of None \<Rightarrow> 0 | Some c \<Rightarrow> sum_list c)"

text \<open>The number of strictly negative entries of a column, as a Python integer.\<close>

definition count_negative :: "real list \<Rightarrow> int" where
  "count_negative c = int (length (filter (\<lambda>v. v < 0) c))"

text \<open>The traces of a returned figure; none when the builder raised.\<close>

definition result_ys :: "error + figure \<Rightarrow> real list list" where
  "result_ys r = (case r of Inl e \<Rightarrow> [] | Inr fig \<Rightarrow> scatter_ys (fig_data fig))"

definition result_xs :: "error + figure \<Rightarrow> string list list" where
  "result_xs r = (case r of Inl e \<Rightarrow> [] | Inr fig \<Rightarrow> scatter_xs (fig_data fig))"

subsection \<open>Required columns\<close>

text \<open>The labels read by \<^verbatim>\<open>get_financial_summary\<close>, and the test that a table has given labels.\<close>

definition summary_columns :: "string list" where
  "summary_columns =
     [''Income'', ''Total_Expenses'', ''Savings'', ''Investments'', ''Net_Income'']
     @ expense_columns"

definition has_columns :: "dataframe \<Rightarrow> string list \<Rightarrow> bool" where
  "has_columns f labels = list_all (\<lambda>l. map_of (amounts f) l \<noteq> None) labels"

text \<open>A table whose given columns are all present and have no row.\<close>

definition no_rows :: "dataframe \<Rightarrow> string list \<Rightarrow> bool" where
  "no_rows f labels = list_all (\<lambda>l. map_of (amounts f) l = Some []) labels"

subsection \<open>Sample tables\<close>

text \<open>
  A parser for values of the form \<^verbatim>\<open>YYYY-MM\<close>, the format of the sample file, as one
  instance of the parser parameter: the first day of the month, or no result.
\<close>

definition digit_value :: "char \<Rightarrow> nat option" where
  "digit_value c =
     map_of [(CHR ''0'', 0), (CHR ''1'', 1), (CHR ''2'', 2), (CHR ''3'', 3), (CHR ''4'', 4),
             (CHR ''5'', 5), (CHR ''6'', 6), (CHR ''7'', 7), (CHR ''8'', 8), (CHR ''9'', 9)] c"

fun number :: "nat \<Rightarrow> string \<Rightarrow> nat option" where
  "number acc [] = Some acc"
| "number acc (c # cs) =
     (case digit_value c of None \<Rightarrow> None | Some d \<Rightarrow> number (10 * acc + d) cs)"

definition parse_year_month :: "string \<Rightarrow> timestamp option" where
  "parse_year_month s =
     (if length s = 7 \<and> s ! 4 = CHR ''-''
      then (case (number 0 (take 4 s), number 0 (drop 5 s)) of
              (Some y, Some m) \<Rightarrow>
                (if 1 \<le> m \<and> m \<le> 12 then Some \<lparr> year = y, month = m, day = 1 \<rparr> else None)
            | _ \<Rightarrow> None)
      else None)"

definition jan :: timestamp where "jan = \<lparr> year = 2024, month = 1, day = 1 \<rparr>"
definition feb :: timestamp where "feb = \<lparr> year = 2024, month = 2, day = 1 \<rparr>"
definition mar :: timestamp where "mar = \<lparr> year = 2024, month = 3, day = 1 \<rparr>"

text \<open>
  Three months with incomes 1000, 1000, 1000 and total expenses 1200, 800, 800; the
  categories Utilities and Groceries tie for the largest total, 1100.
\<close>

definition sample_amounts :: "(string \<times> real list) list" where
  "sample_amounts =
     [(''Income'', [1000, 1000, 1000]),
      (''Rent'', [100, 100, 100]),
      (''Utilities'', [500, 300, 300]),
      (''Insurance'', [0, 0, 0]),
      (''Loan_Payments'', [0, 0, 0]),
      (''Groceries'', [400, 400, 300]),
      (''Transportation'', [0, 0, 0]),
      (''Entertainment'', [0, 0, 0]),
      (''Healthcare'', [0, 0, 0]),
      (''Shopping'', [200, 0, 100]),
      (''Dining_Out'', [0, 0, 0]),
      (''Subscriptions'', [0, 0, 0]),
      (''Savings'', [100, 0, 0]),
      (''Investments'', [0, 50, 0]),
      (''Total_Expenses'', [1200, 800, 800])]"

definition sample_frame :: dataframe where
  "sample_frame =
     \<lparr> Month_col = Some (Datetimes [jan, feb, mar]),
       amounts = sample_amounts @ [(''Net_Income'', [-200, 200, 200])] \<rparr>"

definition sample_summary :: summary where
  "sample_summary =
     \<lparr> total_income = 3000, total_expenses = 2800, total_savings = 100,
       total_investments = 50, net_income = 200,
       average_monthly_income = Some 1000,
       average_monthly_expenses = Some (2800 / 3),
       average_monthly_savings = Some (100 / 3),
       savings_rate = 50, traditional_savings_rate = 10 / 3,
       months_in_deficit = 1, largest_expense_category = ''Utilities'' \<rparr>"

text \<open>The same rows as read from a file: the periods are still strings.\<close>

definition raw_frame :: dataframe where
  "raw_frame =
     \<lparr> Month_col = Some (Strings [''2024-01'', ''2024-02'', ''2024-03'']),
       amounts = sample_amounts @ [(''Net_Income'', [-200, 200, 200])] \<rparr>"

text \<open>The same rows with a second period that is no date.\<close>

definition bad_frame :: dataframe where
  "bad_frame =
     \<lparr> Month_col = Some (Strings [''2024-01'', ''soon'', ''2024-03'']),
       amounts = sample_amounts @ [(''Net_Income'', [-200, 200, 200])] \<rparr>"

text \<open>The same rows in a table that has no column \<^verbatim>\<open>Net_Income\<close>.\<close>

definition frame_without_net :: dataframe where
  "frame_without_net =
     \<lparr> Month_col = Some (Datetimes [jan, feb, mar]), amounts = sample_amounts \<rparr>"

text \<open>The same rows with a column \<^verbatim>\<open>Net_Income\<close> that is not income minus expenses.\<close>

definition frame_other_net :: dataframe where
  "frame_other_net =
     \<lparr> Month_col = Some (Datetimes [jan, feb, mar]),
       amounts = sample_amounts @ [(''Net_Income'', [5, 0, -7])] \<rparr>"


text \<open>A table with every column and no row.\<close>

definition empty_frame :: dataframe where
  "empty_frame =
     \<lparr> Month_col = Some (Datetimes []),
       amounts = map (\<lambda>(l, c). (l, [])) sample_amounts @ [(''Net_Income'', [])] \<rparr>"

definition empty_summary :: summary where
  "empty_summary =
     \<lparr> total_income = 0, total_expenses = 0, total_savings = 0,
       total_investments = 0, net_income = 0,
       average_monthly_income = None,
       average_monthly_expenses = None,
       average_monthly_savings = None,
       savings_rate = 0, traditional_savings_rate = 0,
       months_in_deficit = 0, largest_expense_category = ''Rent'' \<rparr>"



text \<open>Stores in which every address holds the table read from the file.\<close>

definition sample_store :: store where
  "sample_store = (\<lambda>a. raw_frame)"

definition bad_store :: store where
  "bad_store = (\<lambda>a. bad_frame)"

subsection \<open>The recomputed net income\<close>

text \<open>
  Income minus total expenses, row by row, from those two columns: the series that the
  description of the net-income chart names. No function of the program computes it.
\<close>

definition spec_recomputed_net :: "dataframe \<Rightarrow> real list" where
  "spec_recomputed_net f =
     (case (getitem f ''Income'', getitem f ''Total_Expenses'') of
        (Inr income, Inr expenses) \<Rightarrow> map2 (\<lambda>i e. i - e) income expenses
      | _ \<Rightarrow> [])"

section \<open>Basic facts\<close>

lemma and_then_Inl: "and_then (Inl e) k = Inl e"
  by (simp add: and_then_def)

lemma and_then_Inr: "and_then (Inr v) k = k v"
  by (simp add: and_then_def)

lemma and_then_eq_Inr: "and_then m k = Inr r \<longleftrightarrow> (\<exists>v. m = Inr v \<and> k v = Inr r)"
  by (cases m) (simp_all add: and_then_def)

lemma actual_savings_rate_value:
  "actual_savings_rate sv n = Inr (if n > 0 then sv / n * 100 else 0)"
  by (simp add: actual_savings_rate_def truediv_def and_then_def)

lemma traditional_rate_value:
  "traditional_rate sv i = Inr (if i > 0 then sv / i * 100 else 0)"
  by (simp add: traditional_rate_def truediv_def and_then_def)

lemma getitem_Inr: "getitem f l = Inr c \<longleftrightarrow> map_of (amounts f) l = Some c"
  by (simp add: getitem_def split: option.splits)

lemma getitem_total: "getitem f l = Inr c \<Longrightarrow> column_total f l = sum_list c"
  by (simp add: getitem_Inr column_total_def)

lemma getitems_present:
  assumes "getitems f ls = Inr cols" and "l \<in> set ls"
  shows "map_of (amounts f) l \<noteq> None"
proof -
  from assms(1) have "filter (\<lambda>l. map_of (amounts f) l = None) ls = []"
    by (simp add: getitems_def split: if_splits)
  with assms(2) show ?thesis
    by (simp add: filter_empty_conv)
qed

lemma frame_sum_getitems:
  assumes "getitems f ls = Inr cols"
  shows "frame_sum cols = map (\<lambda>l. (l, column_total f l)) ls"
proof -
  from assms have "cols = map (\<lambda>l. (l, case map_of (amounts f) l of None \<Rightarrow> [] | Some c \<Rightarrow> c)) ls"
    by (simp add: getitems_def split: if_splits)
  then show ?thesis
    by (simp add: frame_sum_def column_total_def split: option.splits)
qed



lemma summary_Inr:
  assumes "get_financial_summary f = Inr s"
  shows "\<exists>income expenses savings investments net largest.
           getitem f ''Income'' = Inr income
         \<and> getitem f ''Total_Expenses'' = Inr expenses
         \<and> getitem f ''Savings'' = Inr savings
         \<and> getitem f ''Investments'' = Inr investments
         \<and> getitem f ''Net_Income'' = Inr net
         \<and> idxmax (map (\<lambda>l. (l, column_total f l)) expense_columns) = Inr largest
         \<and> s = \<lparr> total_income = sum_list income,
                 total_expenses = sum_list expenses,
                 total_savings = sum_list savings,
                 total_investments = sum_list investments,
                 net_income = sum_list income - sum_list expenses,
                 average_monthly_income = mean income,
                 average_monthly_expenses = mean expenses,
                 average_monthly_savings = mean savings,
                 savings_rate = (if sum_list income - sum_list expenses > 0
                                 then sum_list savings / (sum_list income - sum_list expenses) * 100
                                 else 0),
                 traditional_savings_rate = (if sum_list income > 0
                                 then sum_list savings / sum_list income * 100 else 0),
                 months_in_deficit = int (length (filter (\<lambda>v. v < 0) net)),
                 largest_expense_category = largest \<rparr>"
proof -
  note defs = get_financial_summary_def and_then_Inl and_then_Inr
    actual_savings_rate_value traditional_rate_value
  obtain income where a: "getitem f ''Income'' = Inr income"
    using assms by (cases "getitem f ''Income''") (simp_all add: defs)
  obtain expenses where b: "getitem f ''Total_Expenses'' = Inr expenses"
    using assms a by (cases "getitem f ''Total_Expenses''") (simp_all add: defs)
  obtain savings where c: "getitem f ''Savings'' = Inr savings"
    using assms a b by (cases "getitem f ''Savings''") (simp_all add: defs)
  obtain investments where d: "getitem f ''Investments'' = Inr investments"
    using assms a b c by (cases "getitem f ''Investments''") (simp_all add: defs)
  obtain net where e: "getitem f ''Net_Income'' = Inr net"
    using assms a b c d by (cases "getitem f ''Net_Income''") (simp_all add: defs)
  obtain cols where g: "getitems f expense_columns = Inr cols"
    using assms a b c d e by (cases "getitems f expense_columns") (simp_all add: defs)
  note h = frame_sum_getitems [OF g]
  obtain largest where k: "idxmax (map (\<lambda>l. (l, column_total f l)) expense_columns) = Inr largest"
    using assms a b c d e g h
    by (cases "idxmax (map (\<lambda>l. (l, column_total f l)) expense_columns)") (simp_all add: defs)
  from assms a b c d e g h k show ?thesis
    by (simp add: defs)
qed



lemma has_columns_append:
  "has_columns f (xs @ ys) \<longleftrightarrow> has_columns f xs \<and> has_columns f ys"
  by (simp add: has_columns_def)







lemma sample_summary_eval: "get_financial_summary sample_frame = Inr sample_summary"
  by (simp add: get_financial_summary_def sample_frame_def sample_amounts_def getitem_def
      getitems_def expense_columns_def frame_sum_def actual_savings_rate_value
      traditional_rate_value mean_def better_def sample_summary_def and_then_Inr)

lemma summary_fields:
  assumes "get_financial_summary f = Inr s"
  shows "total_income s = column_total f ''Income''"
    and "total_expenses s = column_total f ''Total_Expenses''"
    and "total_savings s = column_total f ''Savings''"
    and "total_investments s = column_total f ''Investments''"
    and "net_income s = total_income s - total_expenses s"
    and "savings_rate s =
           (if net_income s > 0 then total_savings s / net_income s * 100 else 0)"
    and "traditional_savings_rate s =
           (if total_income s > 0 then total_savings s / total_income s * 100 else 0)"
    and "\<exists>net. getitem f ''Net_Income'' = Inr net \<and> months_in_deficit s = count_negative net"
    and "idxmax (map (\<lambda>l. (l, column_total f l)) expense_columns)
           = Inr (largest_expense_category s)"
  using summary_Inr [OF assms]
  by (auto simp: getitem_total count_negative_def)

section \<open>The savings rates\<close>









section \<open>The largest expense category\<close>



section \<open>The expense breakdown\<close>







section \<open>Months in deficit and the net-income chart\<close>



text \<open>
  Claim C4 fails for a table without the column \<^verbatim>\<open>Net_Income\<close>: the summary raises
  \<open>KeyError\<close> for that label, although income minus total expenses is negative in
  exactly one row.
\<close>

theorem months_in_deficit_no_fallback:
  "get_financial_summary frame_without_net = Inl (KeyError [''Net_Income''])
   \<and> spec_recomputed_net frame_without_net = [-200, 200, 200]"
  by (simp add: get_financial_summary_def frame_without_net_def sample_amounts_def
      getitem_def and_then_Inr and_then_Inl actual_savings_rate_value traditional_rate_value
      spec_recomputed_net_def)

text \<open>
  Claim C4, as the program has it. Whenever the summary is returned, the table has a
  column \<^verbatim>\<open>Net_Income\<close> and months in deficit is the number of its strictly negative
  values; no summary is returned from a recomputation when the column is absent.
\<close>

theorem months_in_deficit_counts_input_column:
  assumes "get_financial_summary f = Inr s"
  shows "\<exists>net. map_of (amounts f) ''Net_Income'' = Some net
           \<and> months_in_deficit s = count_negative net"
  using summary_fields(8) [OF assms] by (auto simp: getitem_Inr)

theorem months_in_deficit_counts_input_column_witness:
  "get_financial_summary sample_frame = Inr sample_summary
   \<and> map_of (amounts sample_frame) ''Net_Income'' = Some [-200, 200, 200]
   \<and> months_in_deficit sample_summary = count_negative [-200, 200, 200]"
proof -
  have "map_of (amounts sample_frame) ''Net_Income'' = Some [-200, 200, 200]"
    by (simp add: sample_frame_def sample_amounts_def)
  with months_in_deficit_counts_input_column [OF sample_summary_eval] sample_summary_eval
  show ?thesis by auto
qed

text \<open>
  Claim C2 fails for a table whose column \<^verbatim>\<open>Net_Income\<close> differs from income minus
  total expenses: the trace shows the values of the column, not the recomputed ones.
\<close>

theorem net_income_trend_not_recomputed:
  "result_ys (get_net_income_trend frame_other_net) = [[5, 0, -7]]
   \<and> spec_recomputed_net frame_other_net = [-200, 200, 200]"
  by (simp add: get_net_income_trend_def month_labels_def getitem_def frame_other_net_def
      sample_amounts_def and_then_Inr result_ys_def spec_recomputed_net_def)

text \<open>
  Claim C2, as the program has it. For a table whose periods are timestamps and that has
  a column \<^verbatim>\<open>Net_Income\<close>, the net-income chart is returned with a single trace; the
  y-values of that trace are the values of the input column \<^verbatim>\<open>Net_Income\<close>, row by
  row, and the chart has one horizontal line, at zero, that is not among its traces.
\<close>

theorem net_income_trend_reads_column:
  assumes "Month_col f = Some (Datetimes ts)"
    and "map_of (amounts f) ''Net_Income'' = Some ys"
  shows "\<exists>fig. get_net_income_trend f = Inr fig
           \<and> length (fig_data fig) = 1
           \<and> scatter_xs (fig_data fig) = [map strftime_Y_m ts]
           \<and> scatter_ys (fig_data fig) = [ys]
           \<and> map hline_y (fig_hlines fig) = [0]"
proof -
  from assms(1) have "month_labels f = Inr (map strftime_Y_m ts)"
    by (simp add: month_labels_def)
  moreover from assms(2) have "getitem f ''Net_Income'' = Inr ys"
    by (simp add: getitem_Inr)
  ultimately show ?thesis
    by (simp add: get_net_income_trend_def and_then_Inr)
qed

theorem net_income_trend_reads_column_witness:
  "Month_col frame_other_net = Some (Datetimes [jan, feb, mar])
   \<and> map_of (amounts frame_other_net) ''Net_Income'' = Some [5, 0, -7]
   \<and> result_xs (get_net_income_trend frame_other_net) = [map strftime_Y_m [jan, feb, mar]]
   \<and> result_ys (get_net_income_trend frame_other_net) = [[5, 0, -7]]"
proof -
  have a: "Month_col frame_other_net = Some (Datetimes [jan, feb, mar])"
    by (simp add: frame_other_net_def)
  have b: "map_of (amounts frame_other_net) ''Net_Income'' = Some [5, 0, -7]"
    by (simp add: frame_other_net_def sample_amounts_def)
  from net_income_trend_reads_column [OF a b] a b show ?thesis
    by (auto simp: result_xs_def result_ys_def)
qed

section \<open>The income chart\<close>




lemma no_rows_getitem:
  assumes "no_rows f ls" and "l \<in> set ls"
  shows "getitem f l = Inr []"
  using assms by (auto simp: no_rows_def list_all_iff getitem_def)

lemma no_rows_getitems:
  assumes "no_rows f ls"
  shows "getitems f ls = Inr (map (\<lambda>l. (l, [])) ls)"
proof -
  from assms have all: "\<forall>l \<in> set ls. map_of (amounts f) l = Some []"
    by (simp add: no_rows_def list_all_iff)
  then have "filter (\<lambda>l. map_of (amounts f) l = None) ls = []"
    by (simp add: filter_empty_conv)
  moreover from all
  have "map (\<lambda>l. (l, case map_of (amounts f) l of None \<Rightarrow> [] | Some c \<Rightarrow> c)) ls
      = map (\<lambda>l. (l, [])) ls"
    by simp
  ultimately show ?thesis by (simp add: getitems_def)
qed

section \<open>Tables without rows\<close>

text \<open>
  Claim C8 fails for the table that has every column and no row: the summary is returned,
  with totals and rates 0, and no exception is raised.
\<close>

theorem summary_of_empty_table_returns:
  "get_financial_summary empty_frame = Inr empty_summary
   \<and> Month_col empty_frame = Some (Datetimes [])
   \<and> map snd (amounts empty_frame) = replicate 16 []"
  by (simp add: get_financial_summary_def empty_frame_def sample_amounts_def getitem_def
      getitems_def expense_columns_def frame_sum_def actual_savings_rate_value
      traditional_rate_value mean_def better_def empty_summary_def and_then_Inr
      eval_nat_numeral)

text \<open>
  Claim C8, as the program has it. For every table in which the columns read by the
  summary are present and have no row, the summary is returned: the totals, net income,
  both rates and months in deficit are 0, the three averages are NaN, and the largest
  expense category is the first of the fixed names.
\<close>

theorem summary_without_rows:
  assumes "no_rows f summary_columns"
  shows "get_financial_summary f = Inr empty_summary"
proof -
  have mem: "''Income'' \<in> set summary_columns" "''Total_Expenses'' \<in> set summary_columns"
    "''Savings'' \<in> set summary_columns" "''Investments'' \<in> set summary_columns"
    "''Net_Income'' \<in> set summary_columns"
    by (simp_all add: summary_columns_def)
  note cols = mem [THEN no_rows_getitem [OF assms]]
  from assms have "no_rows f expense_columns"
    by (simp add: summary_columns_def no_rows_def)
  note sel = no_rows_getitems [OF this]
  have "idxmax (frame_sum (map (\<lambda>l. (l, [])) expense_columns)) = Inr ''Rent''"
    by (simp add: expense_columns_def frame_sum_def better_def)
  with cols sel show ?thesis
    by (simp add: get_financial_summary_def and_then_Inr actual_savings_rate_value
        traditional_rate_value mean_def empty_summary_def)
qed

lemma empty_no_rows: "no_rows empty_frame summary_columns"
  by (simp add: no_rows_def summary_columns_def expense_columns_def empty_frame_def
      sample_amounts_def)

theorem summary_without_rows_witness:
  "no_rows empty_frame summary_columns
   \<and> get_financial_summary empty_frame = Inr empty_summary
   \<and> months_in_deficit empty_summary = 0
   \<and> savings_rate empty_summary = 0
   \<and> average_monthly_income empty_summary = None"
  using summary_without_rows [OF empty_no_rows] empty_no_rows
  by (simp add: empty_summary_def)


lemma parse_all_None:
  "parse_all parse ss = None \<longleftrightarrow> list_ex (\<lambda>s. parse s = None) ss"
  by (induction ss) (auto split: option.splits)

lemma parse_all_Some:
  "\<not> list_ex (\<lambda>s. parse s = None) ss \<Longrightarrow> parse_all parse ss = Some (map (\<lambda>s. the (parse s)) ss)"
  by (induction ss) (auto split: option.splits)

lemma parse_samples:
  "parse_year_month ''2024-01'' = Some jan"
  "parse_year_month ''2024-02'' = Some feb"
  "parse_year_month ''2024-03'' = Some mar"
  "parse_year_month ''soon'' = None"
  by (simp_all add: parse_year_month_def digit_value_def jan_def feb_def mar_def)

section \<open>Loading\<close>

text \<open>
  Claim C9 fails for a table whose periods all parse: the constructor succeeds and the
  table of the caller, at the address it passed, afterwards holds timestamps where it
  held strings.
\<close>

theorem constructor_changes_callers_table:
  "FinancialAnalyzer_init parse_year_month sample_store 0
     = (Inr \<lparr> df = 0 \<rparr>, sample_store(0 := sample_frame))
   \<and> sample_store 0 = raw_frame
   \<and> Month_col raw_frame = Some (Strings [''2024-01'', ''2024-02'', ''2024-03''])
   \<and> Month_col sample_frame = Some (Datetimes [jan, feb, mar])"
  by (simp add: FinancialAnalyzer_init_def sample_store_def raw_frame_def sample_frame_def
      to_datetime_def parse_samples)

text \<open>
  Claim C9, as the program has it. For a table whose periods are strings, the constructor
  raises \<open>ValueError\<close> and leaves the store as it was when at least one period does not
  parse; otherwise it returns an analyzer for the same address and replaces, in the
  caller's table, the column of periods by the parsed timestamps.
\<close>

theorem constructor_all_or_nothing:
  assumes "Month_col (h a) = Some (Strings ss)"
  shows "FinancialAnalyzer_init parse h a =
           (if list_ex (\<lambda>s. parse s = None) ss
            then (Inl ValueError, h)
            else (Inr \<lparr> df = a \<rparr>,
                  h(a := (h a)\<lparr> Month_col := Some (Datetimes (map (\<lambda>s. the (parse s)) ss)) \<rparr>)))"
proof (cases "list_ex (\<lambda>s. parse s = None) ss")
  case True
  then have "parse_all parse ss = None" by (simp add: parse_all_None)
  with assms True show ?thesis
    by (simp add: FinancialAnalyzer_init_def to_datetime_def)
next
  case False
  from parse_all_Some [OF this] assms False show ?thesis
    by (simp add: FinancialAnalyzer_init_def to_datetime_def)
qed

theorem constructor_all_or_nothing_witness:
  "Month_col (bad_store 0) = Some (Strings [''2024-01'', ''soon'', ''2024-03''])
   \<and> FinancialAnalyzer_init parse_year_month bad_store 0 = (Inl ValueError, bad_store)
   \<and> Month_col (sample_store 0) = Some (Strings [''2024-01'', ''2024-02'', ''2024-03''])
   \<and> fst (FinancialAnalyzer_init parse_year_month sample_store 0) = Inr \<lparr> df = 0 \<rparr>
   \<and> Month_col (snd (FinancialAnalyzer_init parse_year_month sample_store 0) 0)
       = Some (Datetimes [jan, feb, mar])"
proof -
  have a: "Month_col (bad_store 0) = Some (Strings [''2024-01'', ''soon'', ''2024-03''])"
    by (simp add: bad_store_def bad_frame_def)
  have b: "Month_col (sample_store 0) = Some (Strings [''2024-01'', ''2024-02'', ''2024-03''])"
    by (simp add: sample_store_def raw_frame_def)
  have "FinancialAnalyzer_init parse_year_month bad_store 0 = (Inl ValueError, bad_store)"
    using constructor_all_or_nothing [of bad_store 0 _ parse_year_month, OF a]
    by (simp add: parse_samples)
  moreover
  have "FinancialAnalyzer_init parse_year_month sample_store 0 =
      (Inr \<lparr> df = 0 \<rparr>,
       sample_store(0 := (sample_store 0)\<lparr> Month_col := Some (Datetimes [jan, feb, mar]) \<rparr>))"
    using constructor_all_or_nothing [of sample_store 0 _ parse_year_month, OF b]
    by (simp add: parse_samples)
  ultimately show ?thesis
    using a b by simp
qed

end
